theory Spec2Isabelle
  imports Complex_Main "HOL-Library.Word"
begin

unbundle bit_operations_syntax

section \<open>WebGL-Experiments: one quad, one draw call\<close>

text \<open>
  The repository holds two scripts. \<^verbatim>\<open>src/main.js\<close> compiles and links the shader pair and
  builds \<^verbatim>\<open>programInfo\<close>; the colour-uniform script (\<^verbatim>\<open>src/unnamed/part_000\<close>) has the
  same three functions \<^verbatim>\<open>initShaderProgram\<close>, \<^verbatim>\<open>loadShaders\<close>, \<^verbatim>\<open>initBuffers\<close> (textually
  identical), and adds \<^verbatim>\<open>randomColour\<close>, \<^verbatim>\<open>drawScene\<close> and the calls of \<^verbatim>\<open>initBuffers\<close> and
  \<^verbatim>\<open>drawScene\<close> at top level.

  Both scripts are straight-line code over two external collaborators: the WebGL context
  \<^verbatim>\<open>gl\<close> and the gl-matrix library \<^verbatim>\<open>mat4\<close>. The embedding threads an explicit \<open>world\<close> through
  every function: the list of WebGL calls issued so far (with the answer of each query), the
  counter that names the next WebGL object, the heap of JavaScript objects that are passed by
  reference, the number of \<^verbatim>\<open>Math.random\<close> draws consumed and the console. A thrown \<^verbatim>\<open>Error\<close>
  is the \<open>Inl\<close> of a sum; the world at the throw is returned with it.
\<close>

subsection \<open>Values of the WebGL interface\<close>

type_synonym handle = nat
  \<comment> \<open>an opaque WebGL object: \<^verbatim>\<open>WebGLShader\<close>, \<^verbatim>\<open>WebGLProgram\<close>, \<^verbatim>\<open>WebGLBuffer\<close>, \<^verbatim>\<open>WebGLUniformLocation\<close>\<close>

type_synonym addr = nat
  \<comment> \<open>a reference to a JavaScript object in the heap\<close>

text \<open>The \<^verbatim>\<open>gl.*\<close> constants the scripts name. The two clear bits are combined with \<^verbatim>\<open>|\<close>, so
  they carry their values of the WebGL standard as 32-bit integers.\<close>

datatype gl_enum =
    VERTEX_SHADER | FRAGMENT_SHADER | COMPILE_STATUS | LINK_STATUS
  | ARRAY_BUFFER | STATIC_DRAW | DEPTH_TEST | LEQUAL | FLOAT | TRIANGLE_STRIP

definition COLOR_BUFFER_BIT :: "32 word" where
  "COLOR_BUFFER_BIT = 0x4000"

definition DEPTH_BUFFER_BIT :: "32 word" where
  "DEPTH_BUFFER_BIT = 0x100"

text \<open>One entry of the call log per \<^verbatim>\<open>gl.*\<close> call, with its arguments; a call that creates an
  object or asks a question carries what it returned as its last argument. A location or a
  buffer argument is \<open>None\<close> for \<^verbatim>\<open>null\<close> (or \<^verbatim>\<open>undefined\<close>, which WebGL reads as \<^verbatim>\<open>null\<close>).\<close>

datatype gl_call =
    CreateShader gl_enum handle
  | ShaderSource handle string
  | CompileShader handle
  | GetShaderParameter handle gl_enum bool
  | GetShaderInfoLog handle string
  | DeleteShader handle
  | CreateProgram handle
  | AttachShader handle handle
  | LinkProgram handle
  | GetProgramParameter handle gl_enum bool
  | GetProgramInfoLog handle string
  | GetAttribLocation handle string int
  | GetUniformLocation handle string "handle option"
  | CreateBuffer handle
  | BindBuffer gl_enum "handle option"
  | BufferData gl_enum "real list" gl_enum
  | ClearColor real real real real
  | ClearDepth real
  | Enable gl_enum
  | DepthFunc gl_enum
  | Clear "32 word"
  | VertexAttribPointer int nat gl_enum bool nat nat
  | EnableVertexAttribArray int
  | UseProgram handle
  | UniformMatrix4fv "handle option" bool "real list"
  | Uniform3f "handle option" real real real
  | DrawArrays gl_enum nat nat

datatype js_error = Error string | TypeError

subsection \<open>JavaScript objects\<close>

text \<open>The object literals of the scripts. \<^verbatim>\<open>programInfo\<close> is
  \<^verbatim>\<open>{program, attribLocations: {vertexPosition}, uniformLocations: {...}}\<close>; the two scripts
  differ in the keys of \<^verbatim>\<open>uniformLocations\<close> (\<^verbatim>\<open>colorMatrix\<close> only in the colour-uniform script),
  so that object and the \<^verbatim>\<open>buffers\<close> object are kept as key-value lists in the order of the
  literal. A matrix of gl-matrix is a \<^verbatim>\<open>Float32Array\<close> of 16 numbers, column-major.\<close>

record attribLocations =
  vertexPosition :: int

record programInfo =
  program :: handle
  attribLocations :: attribLocations
  uniformLocations :: "(string \<times> handle option) list"

record colour =
  R :: real
  G :: real
  B :: real

datatype js_obj =
    ProgramInfoObj programInfo
  | BuffersObj "(string \<times> handle) list"
  | Float32ArrayObj "real list"

subsection \<open>The platform and the world\<close>

text \<open>
  What the scripts get from outside. JavaScript numbers are IEEE binary64: the result of
  an arithmetic operation is the exact result rounded, and \<open>fl\<close> is that rounding;
  \<open>fround\<close> is the rounding to binary32 of \<^verbatim>\<open>new Float32Array(...)\<close>. Numbers are reals
  here, so \<^verbatim>\<open>Infinity\<close> and \<^verbatim>\<open>NaN\<close> (which only a \<^verbatim>\<open>clientHeight\<close> of 0 could produce, in the
  projection matrix) have no counterpart. \<^verbatim>\<open>Math.PI\<close> is the binary64 number next to \<open>\<pi>\<close>
  and \<^verbatim>\<open>Math.tan\<close> the engine's approximation of the tangent: the platform gives both.
  \<open>random_source p n\<close> is what the \<open>n\<close>-th call of \<^verbatim>\<open>Math.random\<close> returns. The answers of
  the graphics driver may depend on everything that was called before: each is a function
  of the call log so far.
\<close>

record platform =
  fl :: "real \<Rightarrow> real"
  fround :: "real \<Rightarrow> real"
  Math_PI :: real
  Math_tan :: "real \<Rightarrow> real"
  random_source :: "nat \<Rightarrow> real"
  clientWidth :: real
  clientHeight :: real
  shader_parameter :: "gl_call list \<Rightarrow> handle \<Rightarrow> gl_enum \<Rightarrow> bool"
  shader_info_log :: "gl_call list \<Rightarrow> handle \<Rightarrow> string"
  program_parameter :: "gl_call list \<Rightarrow> handle \<Rightarrow> gl_enum \<Rightarrow> bool"
  program_info_log :: "gl_call list \<Rightarrow> handle \<Rightarrow> string"
  attrib_location :: "gl_call list \<Rightarrow> handle \<Rightarrow> string \<Rightarrow> int"
  uniform_location :: "gl_call list \<Rightarrow> handle \<Rightarrow> string \<Rightarrow> handle option"

record world =
  calls :: "gl_call list"
  next_handle :: handle
  heap :: "js_obj list"
  random_count :: nat
  console :: "string list"

definition world0 :: world where
  "world0 = \<lparr>calls = [], next_handle = 0, heap = [], random_count = 0, console = []\<rparr>"

definition new_calls :: "world \<Rightarrow> world \<Rightarrow> gl_call list" where
  \<comment> \<open>the calls issued between an earlier world and a later one\<close>
  "new_calls w w' = drop (length (calls w)) (calls w')"

definition alloc :: "js_obj \<Rightarrow> world \<Rightarrow> addr \<times> world" where
  \<comment> \<open>an object literal or \<^verbatim>\<open>new\<close>: a fresh address\<close>
  "alloc obj w = (length (heap w), w\<lparr>heap := heap w @ [obj]\<rparr>)"

definition heap_get :: "world \<Rightarrow> addr \<Rightarrow> js_obj option" where
  "heap_get w a = (if a < length (heap w) then Some (heap w ! a) else None)"

definition heap_set :: "addr \<Rightarrow> js_obj \<Rightarrow> world \<Rightarrow> world" where
  "heap_set a obj w = (if a < length (heap w) then w\<lparr>heap := (heap w)[a := obj]\<rparr> else w)"

definition array_at :: "world \<Rightarrow> addr \<Rightarrow> real list" where
  \<comment> \<open>the contents of a typed array; the scripts only pass arrays they have just created\<close>
  "array_at w a = (case heap_get w a of Some (Float32ArrayObj m) \<Rightarrow> m | _ \<Rightarrow> [])"

definition console_error :: "string \<Rightarrow> world \<Rightarrow> world" where
  "console_error msg w = w\<lparr>console := console w @ [msg]\<rparr>"

subsection \<open>Math\<close>

definition Math_round :: "real \<Rightarrow> real" where
  \<comment> \<open>\<^verbatim>\<open>Math.round\<close>: the nearest integer, a tie going up\<close>
  "Math_round x = of_int \<lfloor>x + 1 / 2\<rfloor>"

definition Math_random :: "platform \<Rightarrow> world \<Rightarrow> real \<times> world" where
  "Math_random p w = (random_source p (random_count w), w\<lparr>random_count := Suc (random_count w)\<rparr>)"

subsection \<open>The WebGL context\<close>

text \<open>
  The graphics API is an external collaborator (the spec's section 6): it is modelled as a
  backend that records each call. A create call returns the next unused handle; a query
  returns the platform's answer for the log so far. No call throws and none touches the
  heap of JavaScript objects.
\<close>

definition emit :: "gl_call \<Rightarrow> world \<Rightarrow> world" where
  "emit c w = w\<lparr>calls := calls w @ [c]\<rparr>"

definition gl_createShader :: "gl_enum \<Rightarrow> world \<Rightarrow> handle \<times> world" where
  "gl_createShader type w =
     (let h = next_handle w in (h, emit (CreateShader type h) (w\<lparr>next_handle := Suc h\<rparr>)))"

definition gl_shaderSource :: "handle \<Rightarrow> string \<Rightarrow> world \<Rightarrow> world" where
  "gl_shaderSource shader source w = emit (ShaderSource shader source) w"

definition gl_compileShader :: "handle \<Rightarrow> world \<Rightarrow> world" where
  "gl_compileShader shader w = emit (CompileShader shader) w"

definition gl_getShaderParameter :: "platform \<Rightarrow> handle \<Rightarrow> gl_enum \<Rightarrow> world \<Rightarrow> bool \<times> world" where
  "gl_getShaderParameter p shader pname w =
     (let r = shader_parameter p (calls w) shader pname
      in (r, emit (GetShaderParameter shader pname r) w))"

definition gl_getShaderInfoLog :: "platform \<Rightarrow> handle \<Rightarrow> world \<Rightarrow> string \<times> world" where
  "gl_getShaderInfoLog p shader w =
     (let r = shader_info_log p (calls w) shader in (r, emit (GetShaderInfoLog shader r) w))"

definition gl_deleteShader :: "handle \<Rightarrow> world \<Rightarrow> world" where
  "gl_deleteShader shader w = emit (DeleteShader shader) w"

definition gl_createProgram :: "world \<Rightarrow> handle \<times> world" where
  "gl_createProgram w =
     (let h = next_handle w in (h, emit (CreateProgram h) (w\<lparr>next_handle := Suc h\<rparr>)))"

definition gl_attachShader :: "handle \<Rightarrow> handle \<Rightarrow> world \<Rightarrow> world" where
  "gl_attachShader prog shader w = emit (AttachShader prog shader) w"

definition gl_linkProgram :: "handle \<Rightarrow> world \<Rightarrow> world" where
  "gl_linkProgram prog w = emit (LinkProgram prog) w"

definition gl_getProgramParameter :: "platform \<Rightarrow> handle \<Rightarrow> gl_enum \<Rightarrow> world \<Rightarrow> bool \<times> world" where
  "gl_getProgramParameter p prog pname w =
     (let r = program_parameter p (calls w) prog pname
      in (r, emit (GetProgramParameter prog pname r) w))"

definition gl_getProgramInfoLog :: "platform \<Rightarrow> handle \<Rightarrow> world \<Rightarrow> string \<times> world" where
  "gl_getProgramInfoLog p prog w =
     (let r = program_info_log p (calls w) prog in (r, emit (GetProgramInfoLog prog r) w))"

definition gl_getAttribLocation :: "platform \<Rightarrow> handle \<Rightarrow> string \<Rightarrow> world \<Rightarrow> int \<times> world" where
  "gl_getAttribLocation p prog name w =
     (let r = attrib_location p (calls w) prog name in (r, emit (GetAttribLocation prog name r) w))"

definition gl_getUniformLocation ::
  "platform \<Rightarrow> handle \<Rightarrow> string \<Rightarrow> world \<Rightarrow> handle option \<times> world" where
  "gl_getUniformLocation p prog name w =
     (let r = uniform_location p (calls w) prog name in (r, emit (GetUniformLocation prog name r) w))"

definition gl_createBuffer :: "world \<Rightarrow> handle \<times> world" where
  "gl_createBuffer w =
     (let h = next_handle w in (h, emit (CreateBuffer h) (w\<lparr>next_handle := Suc h\<rparr>)))"

definition gl_bindBuffer :: "gl_enum \<Rightarrow> handle option \<Rightarrow> world \<Rightarrow> world" where
  "gl_bindBuffer target buffer w = emit (BindBuffer target buffer) w"

definition gl_bufferData :: "gl_enum \<Rightarrow> real list \<Rightarrow> gl_enum \<Rightarrow> world \<Rightarrow> world" where
  "gl_bufferData target srcData usage w = emit (BufferData target srcData usage) w"

definition gl_clearColor :: "real \<Rightarrow> real \<Rightarrow> real \<Rightarrow> real \<Rightarrow> world \<Rightarrow> world" where
  "gl_clearColor r g b a w = emit (ClearColor r g b a) w"

definition gl_clearDepth :: "real \<Rightarrow> world \<Rightarrow> world" where
  "gl_clearDepth d w = emit (ClearDepth d) w"

definition gl_enable :: "gl_enum \<Rightarrow> world \<Rightarrow> world" where
  "gl_enable cap w = emit (Enable cap) w"

definition gl_depthFunc :: "gl_enum \<Rightarrow> world \<Rightarrow> world" where
  "gl_depthFunc func w = emit (DepthFunc func) w"

definition gl_clear :: "32 word \<Rightarrow> world \<Rightarrow> world" where
  "gl_clear bits w = emit (Clear bits) w"

definition gl_vertexAttribPointer ::
  "int \<Rightarrow> nat \<Rightarrow> gl_enum \<Rightarrow> bool \<Rightarrow> nat \<Rightarrow> nat \<Rightarrow> world \<Rightarrow> world" where
  "gl_vertexAttribPointer index n type normalized stride offset w =
     emit (VertexAttribPointer index n type normalized stride offset) w"

definition gl_enableVertexAttribArray :: "int \<Rightarrow> world \<Rightarrow> world" where
  "gl_enableVertexAttribArray index w = emit (EnableVertexAttribArray index) w"

definition gl_useProgram :: "handle \<Rightarrow> world \<Rightarrow> world" where
  "gl_useProgram prog w = emit (UseProgram prog) w"

definition gl_uniformMatrix4fv :: "handle option \<Rightarrow> bool \<Rightarrow> addr \<Rightarrow> world \<Rightarrow> world" where
  \<comment> \<open>the array is read when the call is made\<close>
  "gl_uniformMatrix4fv location transposed data w =
     emit (UniformMatrix4fv location transposed (array_at w data)) w"

definition gl_uniform3f :: "handle option \<Rightarrow> real \<Rightarrow> real \<Rightarrow> real \<Rightarrow> world \<Rightarrow> world" where
  "gl_uniform3f location v0 v1 v2 w = emit (Uniform3f location v0 v1 v2) w"

definition gl_drawArrays :: "gl_enum \<Rightarrow> nat \<Rightarrow> nat \<Rightarrow> world \<Rightarrow> world" where
  "gl_drawArrays mode first count w = emit (DrawArrays mode first count) w"

subsection \<open>The matrix library\<close>

text \<open>
  Modelled from the spec: the gl-matrix library (\<^verbatim>\<open>mat4.create\<close>, \<^verbatim>\<open>mat4.perspective\<close>,
  \<^verbatim>\<open>mat4.translate\<close>) is not in the sources; the spec's section 6 gives it "standard
  column-major semantics". A matrix is a 16-element array in the heap; \<open>create\<close> allocates
  the identity, and the other two write their result into the array \<open>out\<close>, in exact
  arithmetic. \<open>translate\<close> multiplies \<open>a\<close> by the translation by \<open>v\<close> from the right: the
  first twelve elements are those of \<open>a\<close>, the last column is recomputed.
\<close>

definition mat4_create :: "world \<Rightarrow> addr \<times> world" where
  \<comment> \<open>Modelled from the spec: \<^verbatim>\<open>mat4.create()\<close>, a new identity matrix\<close>
  "mat4_create w = alloc (Float32ArrayObj [1, 0, 0, 0,  0, 1, 0, 0,  0, 0, 1, 0,  0, 0, 0, 1]) w"

definition mat4_perspective ::
  "platform \<Rightarrow> addr \<Rightarrow> real \<Rightarrow> real \<Rightarrow> real \<Rightarrow> real \<Rightarrow> world \<Rightarrow> world" where
  \<comment> \<open>Modelled from the spec: \<^verbatim>\<open>mat4.perspective(out, fovy, aspect, near, far)\<close>, the standard
      perspective matrix written into \<open>out\<close>\<close>
  "mat4_perspective p out fovy aspect near far w =
     (let f = 1 / Math_tan p (fovy / 2);
          nf = 1 / (near - far)
      in heap_set out (Float32ArrayObj
           [f / aspect, 0, 0, 0,
            0, f, 0, 0,
            0, 0, (far + near) * nf, - 1,
            0, 0, 2 * far * near * nf, 0]) w)"

definition mat4_translate :: "addr \<Rightarrow> addr \<Rightarrow> real \<times> real \<times> real \<Rightarrow> world \<Rightarrow> world" where
  \<comment> \<open>Modelled from the spec: \<^verbatim>\<open>mat4.translate(out, a, v)\<close>, \<open>a\<close> translated by \<open>v\<close> written
      into \<open>out\<close>\<close>
  "mat4_translate out a v w =
     (case v of (x, y, z) \<Rightarrow>
        let m = array_at w a
        in heap_set out (Float32ArrayObj
             (take 12 m @
              [m ! 0 * x + m ! 4 * y + m ! 8 * z + m ! 12,
               m ! 1 * x + m ! 5 * y + m ! 9 * z + m ! 13,
               m ! 2 * x + m ! 6 * y + m ! 10 * z + m ! 14,
               m ! 3 * x + m ! 7 * y + m ! 11 * z + m ! 15])) w)"

subsection \<open>The shader sources\<close>

definition template_literal :: "string list \<Rightarrow> string" where
  \<comment> \<open>a template literal without substitutions, given by its lines: each ends in a line feed\<close>
  "template_literal ls = concat (map (\<lambda>l. l @ [CHR 0x0A]) ls)"

definition vertexShader :: string where
  "vertexShader = template_literal
     ['''',
      ''    attribute vec4 aVertexPosition;'',
      '''',
      ''    uniform mat4 uModelViewMatrix;'',
      ''    uniform mat4 uProjectionMatrix;'',
      '''',
      ''    void main() {'',
      ''      gl_Position = uProjectionMatrix * uModelViewMatrix * aVertexPosition;'',
      ''    }'']"

definition fragmentShader :: string where
  \<comment> \<open>the colour-uniform script\<close>
  "fragmentShader = template_literal
     ['''',
      ''    precision mediump float;'',
      ''    uniform vec3 colorMatrix;'',
      ''    void main() {'',
      ''        gl_FragColor = vec4(colorMatrix, 1.0);'',
      ''    }'']"

definition fragmentShader_main :: string where
  \<comment> \<open>\<^verbatim>\<open>fragmentShader\<close> of \<^verbatim>\<open>src/main.js\<close>\<close>
  "fragmentShader_main = template_literal
     ['''',
      ''    void main() {'',
      ''        gl_FragColor = vec4(1.0, 1.0, 1.0, 1.0);'',
      ''    }'']"

subsection \<open>The functions of the scripts\<close>

definition randomColour :: "platform \<Rightarrow> world \<Rightarrow> colour \<times> world" where
  "randomColour p w0 =
     (let s = 255;
          (r1, w1) = Math_random p w0;
          (r2, w2) = Math_random p w1;
          (r3, w3) = Math_random p w2
      in (\<lparr>R = Math_round (fl p (fl p (r1 * s) / 255)),
           G = Math_round (fl p (fl p (r2 * s) / 255)),
           B = Math_round (fl p (fl p (r3 * s) / 255))\<rparr>, w3))"

definition loadShaders :: "platform \<Rightarrow> gl_enum \<Rightarrow> string \<Rightarrow> world \<Rightarrow> (js_error + handle) \<times> world" where
  "loadShaders p type source w0 =
     (let (shader, w1) = gl_createShader type w0;
          w2 = gl_shaderSource shader source w1;
          w3 = gl_compileShader shader w2;
          (status, w4) = gl_getShaderParameter p shader COMPILE_STATUS w3
      in if \<not> status then
           (let (info, w5) = gl_getShaderInfoLog p shader w4;
                error = ''An error occured compiling the shaders: '' @ info;
                w6 = console_error error w5;
                w7 = gl_deleteShader shader w6
            in (Inl (Error error), w7))
         else (Inr shader, w4))"

definition initShaderProgram ::
  "platform \<Rightarrow> string \<Rightarrow> string \<Rightarrow> world \<Rightarrow> (js_error + handle) \<times> world" where
  "initShaderProgram p vertexShaderSource fragmentShaderSource w0 =
     (case loadShaders p VERTEX_SHADER vertexShaderSource w0 of
        (Inl e, w1) \<Rightarrow> (Inl e, w1)
      | (Inr vShader, w1) \<Rightarrow>
     (case loadShaders p FRAGMENT_SHADER fragmentShaderSource w1 of
        (Inl e, w2) \<Rightarrow> (Inl e, w2)
      | (Inr fShader, w2) \<Rightarrow>
          (let (shaderProgram, w3) = gl_createProgram w2;
               w4 = gl_attachShader shaderProgram vShader w3;
               w5 = gl_attachShader shaderProgram fShader w4;
               w6 = gl_linkProgram shaderProgram w5;
               (status, w7) = gl_getProgramParameter p shaderProgram LINK_STATUS w6
           in if \<not> status then
                (let (info, w8) = gl_getProgramInfoLog p shaderProgram w7;
                     error = ''Unable to initialize the shader program: '' @ info;
                     w9 = console_error error w8
                 in (Inl (Error error), w9))
              else (Inr shaderProgram, w7))))"

definition Float32Array_new :: "platform \<Rightarrow> real list \<Rightarrow> real list" where
  \<comment> \<open>\<^verbatim>\<open>new Float32Array(xs)\<close>: each number rounded to binary32\<close>
  "Float32Array_new p xs = map (fround p) xs"

definition initBuffers :: "platform \<Rightarrow> world \<Rightarrow> addr \<times> world" where
  "initBuffers p w0 =
     (let (positionBuffer, w1) = gl_createBuffer w0;
          w2 = gl_bindBuffer ARRAY_BUFFER (Some positionBuffer) w1;
          positions = [- 1, 1, 1, 1, - 1, - 1, 1, - 1];
          w3 = gl_bufferData ARRAY_BUFFER (Float32Array_new p positions) STATIC_DRAW w2
      in alloc (BuffersObj [(''position'', positionBuffer)]) w3)"

text \<open>Property reads. A key that an object does not have reads as \<^verbatim>\<open>undefined\<close>, which the
  WebGL calls take for \<^verbatim>\<open>null\<close>; \<^verbatim>\<open>programInfo.attribLocations.vertexPosition\<close> on an object
  without \<^verbatim>\<open>attribLocations\<close> reads a property of \<^verbatim>\<open>undefined\<close> and throws a \<^verbatim>\<open>TypeError\<close>.\<close>

definition buffers_position :: "world \<Rightarrow> addr \<Rightarrow> handle option" where
  "buffers_position w a =
     (case heap_get w a of Some (BuffersObj m) \<Rightarrow> map_of m ''position'' | _ \<Rightarrow> None)"

definition programInfo_at :: "world \<Rightarrow> addr \<Rightarrow> programInfo option" where
  "programInfo_at w a =
     (case heap_get w a of Some (ProgramInfoObj info) \<Rightarrow> Some info | _ \<Rightarrow> None)"

definition uniform_of :: "(string \<times> handle option) list \<Rightarrow> string \<Rightarrow> handle option" where
  "uniform_of m k = (case map_of m k of Some l \<Rightarrow> l | None \<Rightarrow> None)"

definition drawScene :: "platform \<Rightarrow> addr \<Rightarrow> addr \<Rightarrow> world \<Rightarrow> (js_error + unit) \<times> world" where
  "drawScene p programInfo buffers w0 =
     (let w1 = gl_clearColor 0 0 0 1 w0;
          w2 = gl_clearDepth 1 w1;
          w3 = gl_enable DEPTH_TEST w2;
          w4 = gl_depthFunc LEQUAL w3;
          w5 = gl_clear (COLOR_BUFFER_BIT OR DEPTH_BUFFER_BIT) w4;
          fieldOfView = fl p (fl p (45 * Math_PI p) / 180);
          aspect = fl p (clientWidth p / clientHeight p);
          zNear = fl p (1 / 10);
          zFar = 100;
          (projectionMatrix, w6) = mat4_create w5;
          w7 = mat4_perspective p projectionMatrix fieldOfView aspect zNear zFar w6;
          (modelViewMatrix, w8) = mat4_create w7;
          w9 = mat4_translate modelViewMatrix modelViewMatrix (- 0, 0, - 6) w8;
          numComponents = 2;
          type = FLOAT;
          normalise = False;
          stride = 0;
          offset = 0;
          w10 = gl_bindBuffer ARRAY_BUFFER (buffers_position w9 buffers) w9
      in case programInfo_at w10 programInfo of
           None \<Rightarrow> (Inl TypeError, w10)
         | Some info \<Rightarrow>
          (let w11 = gl_vertexAttribPointer (vertexPosition (attribLocations info))
                       numComponents type normalise stride offset w10;
               w12 = gl_enableVertexAttribArray (vertexPosition (attribLocations info)) w11;
               w13 = gl_useProgram (program info) w12;
               w14 = gl_uniformMatrix4fv (uniform_of (uniformLocations info) ''projectionMatrix'')
                       False projectionMatrix w13;
               w15 = gl_uniformMatrix4fv (uniform_of (uniformLocations info) ''modelViewMatrix'')
                       False modelViewMatrix w14;
               (colour, w16) = randomColour p w15;
               w17 = gl_uniform3f (uniform_of (uniformLocations info) ''colorMatrix'')
                       (R colour) (G colour) (B colour) w16;
               w18 = gl_drawArrays TRIANGLE_STRIP 0 4 w17
           in (Inr (), w18)))"

subsection \<open>The top level of the two scripts\<close>

definition script_main :: "platform \<Rightarrow> world \<Rightarrow> (js_error + addr) \<times> world" where
  \<comment> \<open>\<^verbatim>\<open>src/main.js\<close>, lines 128 to 141: the script ends with \<^verbatim>\<open>programInfo\<close>, whose address
      is returned here\<close>
  "script_main p w0 =
     (case initShaderProgram p vertexShader fragmentShader_main w0 of
        (Inl e, w1) \<Rightarrow> (Inl e, w1)
      | (Inr shaderProgram, w1) \<Rightarrow>
          (let (vp, w2) = gl_getAttribLocation p shaderProgram ''aVertexPosition'' w1;
               (pm, w3) = gl_getUniformLocation p shaderProgram ''uProjectionMatrix'' w2;
               (mv, w4) = gl_getUniformLocation p shaderProgram ''uModelViewMatrix'' w3;
               (programInfo, w5) = alloc (ProgramInfoObj
                  \<lparr>program = shaderProgram,
                   attribLocations = \<lparr>vertexPosition = vp\<rparr>,
                   uniformLocations = [(''projectionMatrix'', pm), (''modelViewMatrix'', mv)]\<rparr>) w4
           in (Inr programInfo, w5)))"

definition script_colour :: "platform \<Rightarrow> world \<Rightarrow> (js_error + unit) \<times> world" where
  \<comment> \<open>the colour-uniform script, lines 218 to 236\<close>
  "script_colour p w0 =
     (case initShaderProgram p vertexShader fragmentShader w0 of
        (Inl e, w1) \<Rightarrow> (Inl e, w1)
      | (Inr shaderProgram, w1) \<Rightarrow>
          (let (vp, w2) = gl_getAttribLocation p shaderProgram ''aVertexPosition'' w1;
               (pm, w3) = gl_getUniformLocation p shaderProgram ''uProjectionMatrix'' w2;
               (mv, w4) = gl_getUniformLocation p shaderProgram ''uModelViewMatrix'' w3;
               (cm, w5) = gl_getUniformLocation p shaderProgram ''colorMatrix'' w4;
               (programInfo, w6) = alloc (ProgramInfoObj
                  \<lparr>program = shaderProgram,
                   attribLocations = \<lparr>vertexPosition = vp\<rparr>,
                   uniformLocations = [(''projectionMatrix'', pm), (''modelViewMatrix'', mv),
                                       (''colorMatrix'', cm)]\<rparr>) w5;
               (buffers, w7) = initBuffers p w6
           in drawScene p programInfo buffers w7))"

subsection \<open>Reading the call log\<close>

fun is_drawArrays :: "gl_call \<Rightarrow> bool" where
  "is_drawArrays (DrawArrays mode first count) = True"
| "is_drawArrays c = False"

fun is_deleteShader :: "gl_call \<Rightarrow> bool" where
  "is_deleteShader (DeleteShader shader) = True"
| "is_deleteShader c = False"

fun is_uniformMatrix4fv :: "gl_call \<Rightarrow> bool" where
  "is_uniformMatrix4fv (UniformMatrix4fv location transposed data) = True"
| "is_uniformMatrix4fv c = False"

fun is_uniform3f :: "gl_call \<Rightarrow> bool" where
  "is_uniform3f (Uniform3f location v0 v1 v2) = True"
| "is_uniform3f c = False"

fun channels_01 :: "gl_call \<Rightarrow> bool" where
  \<comment> \<open>a colour upload whose three channels are each 0 or 1; true of every other call\<close>
  "channels_01 (Uniform3f location v0 v1 v2) =
     ((v0 = 0 \<or> v0 = 1) \<and> (v1 = 0 \<or> v1 = 1) \<and> (v2 = 0 \<or> v2 = 1))"
| "channels_01 c = True"

subsection \<open>A concrete platform\<close>

text \<open>
  A platform to run the scripts on: arithmetic rounds to the nearest multiple of \<open>1 / 1024\<close>
  (a tie going up), \<^verbatim>\<open>Math.PI\<close> is \<open>3217 / 1024\<close>, \<^verbatim>\<open>Math.tan\<close> is the rounded cubic
  \<open>x + x\<^sup>3 / 3\<close>, the random source yields \<open>1 / 2\<close>, \<open>1 / 3\<close>, \<open>1 / 4\<close>, ..., the canvas is
  640 by 480, the shaders whose handles are listed in \<open>failing\<close> do not compile, and the
  program links exactly when \<open>linkable\<close> holds.
\<close>

definition grid :: "real \<Rightarrow> real" where
  "grid x = of_int \<lfloor>x * 1024 + 1 / 2\<rfloor> / 1024"

definition mock_platform :: "handle list \<Rightarrow> bool \<Rightarrow> platform" where
  "mock_platform failing linkable =
     \<lparr>fl = grid,
      fround = grid,
      Math_PI = 3217 / 1024,
      Math_tan = (\<lambda>x. grid (x + x * x * x / 3)),
      random_source = (\<lambda>n. 1 / (real n + 2)),
      clientWidth = 640,
      clientHeight = 480,
      shader_parameter = (\<lambda>issued shader pname. shader \<notin> set failing),
      shader_info_log = (\<lambda>issued shader. ''ERROR: 0:1: syntax error''),
      program_parameter = (\<lambda>issued prog pname. linkable),
      program_info_log = (\<lambda>issued prog. ''link failed''),
      attrib_location = (\<lambda>issued prog name. 0),
      uniform_location = (\<lambda>issued prog name. Some (length name))\<rparr>"

definition ready_world :: world where
  \<comment> \<open>a world that holds a \<^verbatim>\<open>programInfo\<close> object at address 0 and a \<^verbatim>\<open>buffers\<close> object at 1\<close>
  "ready_world =
     \<lparr>calls = [],
      next_handle = 4,
      heap = [ProgramInfoObj
                \<lparr>program = 2,
                 attribLocations = \<lparr>vertexPosition = 0\<rparr>,
                 uniformLocations = [(''projectionMatrix'', Some 17), (''modelViewMatrix'', Some 16),
                                     (''colorMatrix'', Some 11)]\<rparr>,
              BuffersObj [(''position'', 3)]],
      random_count = 0,
      console = []\<rparr>"

section \<open>Symbolic execution of the functions\<close>

text \<open>Each function is straight-line code, so its result is stated in closed form: the value
  returned and the world it leaves, for any starting world.\<close>

lemmas gl_defs = emit_def gl_createShader_def gl_shaderSource_def gl_compileShader_def
  gl_getShaderParameter_def gl_getShaderInfoLog_def gl_deleteShader_def gl_createProgram_def
  gl_attachShader_def gl_linkProgram_def gl_getProgramParameter_def gl_getProgramInfoLog_def
  gl_getAttribLocation_def gl_getUniformLocation_def gl_createBuffer_def gl_bindBuffer_def
  gl_bufferData_def gl_clearColor_def gl_clearDepth_def gl_enable_def gl_depthFunc_def
  gl_clear_def gl_vertexAttribPointer_def gl_enableVertexAttribArray_def gl_useProgram_def
  gl_uniformMatrix4fv_def gl_uniform3f_def gl_drawArrays_def

lemma loadShaders_unfold:
  "loadShaders p t src w =
     (let h = next_handle w;
          issued = calls w @ [CreateShader t h, ShaderSource h src, CompileShader h]
      in if shader_parameter p issued h COMPILE_STATUS
         then (Inr h, w\<lparr>calls := issued @ [GetShaderParameter h COMPILE_STATUS True],
                        next_handle := Suc h\<rparr>)
         else (let info = shader_info_log p (issued @ [GetShaderParameter h COMPILE_STATUS False]) h;
                   msg = ''An error occured compiling the shaders: '' @ info
               in (Inl (Error msg),
                   w\<lparr>calls := issued @ [GetShaderParameter h COMPILE_STATUS False,
                                         GetShaderInfoLog h info, DeleteShader h],
                     next_handle := Suc h, console := console w @ [msg]\<rparr>)))"
  by (simp add: loadShaders_def gl_defs console_error_def Let_def)

lemma initShaderProgram_unfold:
  "initShaderProgram p vs fs w =
     (let hv = next_handle w;
          c1 = calls w @ [CreateShader VERTEX_SHADER hv, ShaderSource hv vs, CompileShader hv]
      in if \<not> shader_parameter p c1 hv COMPILE_STATUS then
           (let info = shader_info_log p (c1 @ [GetShaderParameter hv COMPILE_STATUS False]) hv;
                msg = ''An error occured compiling the shaders: '' @ info
            in (Inl (Error msg),
                w\<lparr>calls := c1 @ [GetShaderParameter hv COMPILE_STATUS False,
                                   GetShaderInfoLog hv info, DeleteShader hv],
                  next_handle := Suc hv, console := console w @ [msg]\<rparr>))
         else
      (let hf = Suc hv;
           c2 = c1 @ [GetShaderParameter hv COMPILE_STATUS True,
                      CreateShader FRAGMENT_SHADER hf, ShaderSource hf fs, CompileShader hf]
       in if \<not> shader_parameter p c2 hf COMPILE_STATUS then
            (let info = shader_info_log p (c2 @ [GetShaderParameter hf COMPILE_STATUS False]) hf;
                 msg = ''An error occured compiling the shaders: '' @ info
             in (Inl (Error msg),
                 w\<lparr>calls := c2 @ [GetShaderParameter hf COMPILE_STATUS False,
                                    GetShaderInfoLog hf info, DeleteShader hf],
                   next_handle := Suc hf, console := console w @ [msg]\<rparr>))
          else
      (let hp = Suc hf;
           c3 = c2 @ [GetShaderParameter hf COMPILE_STATUS True,
                      CreateProgram hp, AttachShader hp hv, AttachShader hp hf, LinkProgram hp]
       in if \<not> program_parameter p c3 hp LINK_STATUS then
            (let info = program_info_log p (c3 @ [GetProgramParameter hp LINK_STATUS False]) hp;
                 msg = ''Unable to initialize the shader program: '' @ info
             in (Inl (Error msg),
                 w\<lparr>calls := c3 @ [GetProgramParameter hp LINK_STATUS False,
                                    GetProgramInfoLog hp info],
                   next_handle := Suc hp, console := console w @ [msg]\<rparr>))
          else (Inr hp, w\<lparr>calls := c3 @ [GetProgramParameter hp LINK_STATUS True],
                          next_handle := Suc hp\<rparr>))))"
  by (simp add: initShaderProgram_def loadShaders_unfold gl_defs console_error_def Let_def)

lemma initBuffers_unfold:
  "initBuffers p w =
     (length (heap w),
      w\<lparr>calls := calls w @ [CreateBuffer (next_handle w),
                            BindBuffer ARRAY_BUFFER (Some (next_handle w)),
                            BufferData ARRAY_BUFFER
                              [fround p (- 1), fround p 1, fround p 1, fround p 1,
                               fround p (- 1), fround p (- 1), fround p 1, fround p (- 1)]
                              STATIC_DRAW],
        next_handle := Suc (next_handle w),
        heap := heap w @ [BuffersObj [(''position'', next_handle w)]]\<rparr>)"
  by (simp add: initBuffers_def gl_defs alloc_def Float32Array_new_def Let_def)

lemma randomColour_unfold:
  "randomColour p w =
     (\<lparr>R = Math_round (fl p (fl p (random_source p (random_count w) * 255) / 255)),
       G = Math_round (fl p (fl p (random_source p (Suc (random_count w)) * 255) / 255)),
       B = Math_round (fl p (fl p (random_source p (Suc (Suc (random_count w))) * 255) / 255))\<rparr>,
      w\<lparr>random_count := Suc (Suc (Suc (random_count w)))\<rparr>)"
  by (simp add: randomColour_def Math_random_def Let_def)

text \<open>The two matrices \<open>drawScene\<close> creates are the only objects it adds to the heap: what
  the addresses of its arguments hold is read the same before and after.\<close>

lemma programInfo_at_grow:
  "heap w' = heap w @ [Float32ArrayObj m1, Float32ArrayObj m2] \<Longrightarrow>
   programInfo_at w' a = programInfo_at w a"
  by (simp add: programInfo_at_def heap_get_def nth_append less_Suc_eq)

lemma buffers_position_grow:
  "heap w' = heap w @ [Float32ArrayObj m1, Float32ArrayObj m2] \<Longrightarrow>
   buffers_position w' a = buffers_position w a"
  by (simp add: buffers_position_def heap_get_def nth_append less_Suc_eq)

lemma drawScene_setup:
  "gl_clear m (gl_depthFunc f (gl_enable e (gl_clearDepth d (gl_clearColor r g bl al w))))
     = w\<lparr>calls := calls w @ [ClearColor r g bl al, ClearDepth d, Enable e, DepthFunc f, Clear m]\<rparr>"
  by (simp add: gl_defs)

lemma drawScene_matrices:
  "mat4_create (w\<lparr>calls := cs\<rparr>) = (length (heap w), w1) \<Longrightarrow>
   mat4_create (mat4_perspective p (length (heap w)) fov asp near far w1) = (a2, w2) \<Longrightarrow>
   a2 = Suc (length (heap w)) \<and>
   mat4_translate a2 a2 (- 0, 0, - 6) w2
   = w\<lparr>calls := cs, heap := heap w @
        [Float32ArrayObj
           [1 / Math_tan p (fov / 2) / asp, 0, 0, 0,
            0, 1 / Math_tan p (fov / 2), 0, 0,
            0, 0, (far + near) * (1 / (near - far)), - 1,
            0, 0, 2 * far * near * (1 / (near - far)), 0],
         Float32ArrayObj [1, 0, 0, 0,  0, 1, 0, 0,  0, 0, 1, 0,  0, 0, - 6, 1]]\<rparr>"
  by (auto simp add: mat4_translate_def mat4_create_def mat4_perspective_def alloc_def heap_set_def
      array_at_def heap_get_def Let_def nth_append list_update_append)

lemma drawScene_unfold:
  "drawScene p a b w =
     (let proj = [1 / Math_tan p (fl p (fl p (45 * Math_PI p) / 180) / 2)
                    / fl p (clientWidth p / clientHeight p), 0, 0, 0,
                  0, 1 / Math_tan p (fl p (fl p (45 * Math_PI p) / 180) / 2), 0, 0,
                  0, 0, (100 + fl p (1 / 10)) * (1 / (fl p (1 / 10) - 100)), - 1,
                  0, 0, 2 * 100 * fl p (1 / 10) * (1 / (fl p (1 / 10) - 100)), 0];
          mv = [1, 0, 0, 0,  0, 1, 0, 0,  0, 0, 1, 0,  0, 0, - 6, 1];
          hp = heap w @ [Float32ArrayObj proj, Float32ArrayObj mv];
          setup = [ClearColor 0 0 0 1, ClearDepth 1, Enable DEPTH_TEST, DepthFunc LEQUAL,
                   Clear (COLOR_BUFFER_BIT OR DEPTH_BUFFER_BIT),
                   BindBuffer ARRAY_BUFFER (buffers_position w b)];
          c = fst (randomColour p w)
      in case programInfo_at w a of
           None \<Rightarrow> (Inl TypeError, w\<lparr>calls := calls w @ setup, heap := hp\<rparr>)
         | Some info \<Rightarrow>
            (Inr (), w\<lparr>calls := calls w @ setup @
               [VertexAttribPointer (vertexPosition (attribLocations info)) 2 FLOAT False 0 0,
                EnableVertexAttribArray (vertexPosition (attribLocations info)),
                UseProgram (program info),
                UniformMatrix4fv (uniform_of (uniformLocations info) ''projectionMatrix'') False proj,
                UniformMatrix4fv (uniform_of (uniformLocations info) ''modelViewMatrix'') False mv,
                Uniform3f (uniform_of (uniformLocations info) ''colorMatrix'') (R c) (G c) (B c),
                DrawArrays TRIANGLE_STRIP 0 4],
               heap := hp, random_count := Suc (Suc (Suc (random_count w)))\<rparr>))"
proof -
  let ?fov = "fl p (fl p (45 * Math_PI p) / 180)"
  let ?asp = "fl p (clientWidth p / clientHeight p)"
  let ?near = "fl p (1 / 10)"
  define proj where "proj = [1 / Math_tan p (?fov / 2) / ?asp, 0, 0, 0,
                0, 1 / Math_tan p (?fov / 2), 0, 0,
                0, 0, (100 + ?near) * (1 / (?near - 100)), - 1,
                0, 0, 2 * 100 * ?near * (1 / (?near - 100)), 0]"
  define mv where "mv = [1, 0, 0, 0,  0, 1, 0, 0,  0, 0, 1, 0,  0, 0, - 6, 1 :: real]"
  define cs where "cs = calls w @ [ClearColor 0 0 0 1, ClearDepth 1, Enable DEPTH_TEST,
                   DepthFunc LEQUAL, Clear (COLOR_BUFFER_BIT OR DEPTH_BUFFER_BIT)]"
  let ?w5 = "gl_clear (COLOR_BUFFER_BIT OR DEPTH_BUFFER_BIT) (gl_depthFunc LEQUAL
               (gl_enable DEPTH_TEST (gl_clearDepth 1 (gl_clearColor 0 0 0 1 w))))"
  let ?w9 = "w\<lparr>calls := cs, heap := heap w @ [Float32ArrayObj proj, Float32ArrayObj mv]\<rparr>"
  have w5: "?w5 = w\<lparr>calls := cs\<rparr>"
    unfolding cs_def by (rule drawScene_setup)
  obtain w6 where c1: "mat4_create ?w5 = (length (heap w), w6)"
    by (simp add: w5 mat4_create_def alloc_def)
  obtain a2 w8 where
    c2: "mat4_create (mat4_perspective p (length (heap w)) ?fov ?asp ?near 100 w6) = (a2, w8)"
    by (cases "mat4_create (mat4_perspective p (length (heap w)) ?fov ?asp ?near 100 w6)")
  have m0: "a2 = Suc (length (heap w)) \<and> mat4_translate a2 a2 (- 0, 0, - 6) w8 = ?w9"
    unfolding proj_def mv_def by (rule drawScene_matrices [OF c1 [unfolded w5] c2])
  have m1: "a2 = Suc (length (heap w))"
    by (rule m0 [THEN conjunct1])
  have m2: "mat4_translate (Suc (length (heap w))) (Suc (length (heap w))) (- 0, 0, - 6) w8 = ?w9"
    using m0 [THEN conjunct2] unfolding m1 .
  have hp: "heap ?w9 = heap w @ [Float32ArrayObj proj, Float32ArrayObj mv]"
    by simp
  have bp: "buffers_position ?w9 b = buffers_position w b"
    by (rule buffers_position_grow [OF hp])
  have pinfo: "programInfo_at (gl_bindBuffer ARRAY_BUFFER (buffers_position w b) ?w9) a
                 = programInfo_at w a"
    by (rule programInfo_at_grow) (simp add: gl_bindBuffer_def emit_def)
  have step: "drawScene p a b w =
     (case programInfo_at w a of
           None \<Rightarrow> (Inl TypeError, gl_bindBuffer ARRAY_BUFFER (buffers_position w b) ?w9)
         | Some info \<Rightarrow>
          (let w10 = gl_bindBuffer ARRAY_BUFFER (buffers_position w b) ?w9;
               w11 = gl_vertexAttribPointer (vertexPosition (attribLocations info))
                       2 FLOAT False 0 0 w10;
               w12 = gl_enableVertexAttribArray (vertexPosition (attribLocations info)) w11;
               w13 = gl_useProgram (program info) w12;
               w14 = gl_uniformMatrix4fv (uniform_of (uniformLocations info) ''projectionMatrix'')
                       False (length (heap w)) w13;
               w15 = gl_uniformMatrix4fv (uniform_of (uniformLocations info) ''modelViewMatrix'')
                       False (Suc (length (heap w))) w14;
               (colour, w16) = randomColour p w15;
               w17 = gl_uniform3f (uniform_of (uniformLocations info) ''colorMatrix'')
                       (R colour) (G colour) (B colour) w16;
               w18 = gl_drawArrays TRIANGLE_STRIP 0 4 w17
           in (Inr (), w18)))"
    unfolding drawScene_def Let_def c1 c2 prod.case m1 m2 bp pinfo ..
  show ?thesis
    unfolding step Let_def proj_def [symmetric] mv_def [symmetric]
    by (cases "programInfo_at w a")
       (simp_all add: gl_drawArrays_def gl_uniform3f_def gl_uniformMatrix4fv_def gl_useProgram_def
        gl_enableVertexAttribArray_def gl_vertexAttribPointer_def gl_bindBuffer_def
        array_at_def heap_get_def nth_append randomColour_unfold emit_def cs_def)
qed

text \<open>Every function only appends to the call log, and neither shader compilation nor
  linking issues a draw call.\<close>

lemma new_calls_append: "calls w' = calls w @ cs \<Longrightarrow> new_calls w w' = cs"
  by (simp add: new_calls_def)

lemma loadShaders_effects:
  "calls (snd (loadShaders p t src w)) = calls w @ new_calls w (snd (loadShaders p t src w))"
  "filter is_drawArrays (new_calls w (snd (loadShaders p t src w))) = []"
  by (simp_all add: loadShaders_unfold Let_def new_calls_def)

lemma initShaderProgram_effects:
  "calls (snd (initShaderProgram p vs fs w)) = calls w @ new_calls w (snd (initShaderProgram p vs fs w))"
  "filter is_drawArrays (new_calls w (snd (initShaderProgram p vs fs w))) = []"
  "heap (snd (initShaderProgram p vs fs w)) = heap w"
  "random_count (snd (initShaderProgram p vs fs w)) = random_count w"
  by (simp_all add: initShaderProgram_unfold Let_def new_calls_def)

lemma drawScene_calls:
  "calls (snd (drawScene p a b w)) = calls w @ new_calls w (snd (drawScene p a b w))"
  by (simp add: drawScene_unfold Let_def new_calls_def split: option.split)

lemma drawScene_draws:
  "filter is_drawArrays (new_calls w (snd (drawScene p a b w))) =
     (case programInfo_at w a of None \<Rightarrow> [] | Some info \<Rightarrow> [DrawArrays TRIANGLE_STRIP 0 4])"
  by (simp add: drawScene_unfold Let_def new_calls_def split: option.split)

lemma drawScene_returns:
  "fst (drawScene p a b w) =
     (case programInfo_at w a of None \<Rightarrow> Inl TypeError | Some info \<Rightarrow> Inr ())"
  by (simp add: drawScene_unfold Let_def split: option.split)

lemma drawScene_new_calls:
  "new_calls w (snd (drawScene p a b w)) =
     [ClearColor 0 0 0 1, ClearDepth 1, Enable DEPTH_TEST, DepthFunc LEQUAL,
      Clear (COLOR_BUFFER_BIT OR DEPTH_BUFFER_BIT),
      BindBuffer ARRAY_BUFFER (buffers_position w b)] @
     (case programInfo_at w a of
        None \<Rightarrow> []
      | Some info \<Rightarrow>
         [VertexAttribPointer (vertexPosition (attribLocations info)) 2 FLOAT False 0 0,
          EnableVertexAttribArray (vertexPosition (attribLocations info)),
          UseProgram (program info),
          UniformMatrix4fv (uniform_of (uniformLocations info) ''projectionMatrix'') False
            (array_at (snd (drawScene p a b w)) (length (heap w))),
          UniformMatrix4fv (uniform_of (uniformLocations info) ''modelViewMatrix'') False
            [1, 0, 0, 0,  0, 1, 0, 0,  0, 0, 1, 0,  0, 0, - 6, 1],
          Uniform3f (uniform_of (uniformLocations info) ''colorMatrix'')
            (R (fst (randomColour p w))) (G (fst (randomColour p w))) (B (fst (randomColour p w))),
          DrawArrays TRIANGLE_STRIP 0 4])"
  by (simp add: drawScene_unfold Let_def new_calls_def array_at_def heap_get_def nth_append
      split: option.split)

lemma drawScene_heap:
  "\<exists>proj. heap (snd (drawScene p a b w)) =
     heap w @ [Float32ArrayObj proj,
               Float32ArrayObj [1, 0, 0, 0,  0, 1, 0, 0,  0, 0, 1, 0,  0, 0, - 6, 1]]"
  by (simp add: drawScene_unfold Let_def split: option.split)


subsection \<open>The two scripts\<close>

lemma script_main_unfold:
  "script_main p w =
     (case initShaderProgram p vertexShader fragmentShader_main w of
        (Inl e, w1) \<Rightarrow> (Inl e, w1)
      | (Inr sp, w1) \<Rightarrow>
          (let vp = attrib_location p (calls w1) sp ''aVertexPosition'';
               c1 = calls w1 @ [GetAttribLocation sp ''aVertexPosition'' vp];
               pm = uniform_location p c1 sp ''uProjectionMatrix'';
               c2 = c1 @ [GetUniformLocation sp ''uProjectionMatrix'' pm];
               mv = uniform_location p c2 sp ''uModelViewMatrix'';
               c3 = c2 @ [GetUniformLocation sp ''uModelViewMatrix'' mv]
           in (Inr (length (heap w1)),
               w1\<lparr>calls := c3,
                  heap := heap w1 @
                       [ProgramInfoObj \<lparr>program = sp, attribLocations = \<lparr>vertexPosition = vp\<rparr>,
                          uniformLocations = [(''projectionMatrix'', pm),
                                              (''modelViewMatrix'', mv)]\<rparr>]\<rparr>)))"
  by (simp add: script_main_def gl_getAttribLocation_def gl_getUniformLocation_def emit_def
      alloc_def Let_def split: prod.splits sum.splits)

lemma script_main_failure:
  "initShaderProgram p vertexShader fragmentShader_main w = (Inl e, w1) \<Longrightarrow>
   script_main p w = (Inl e, w1)"
  by (simp add: script_main_unfold)

lemma script_main_no_draw:
  "filter is_drawArrays (new_calls w (snd (script_main p w))) = []"
proof (cases "initShaderProgram p vertexShader fragmentShader_main w")
  case (Pair r w1)
  from initShaderProgram_effects(1,2)
         [where p = p and vs = vertexShader and fs = fragmentShader_main and w = w] Pair
  obtain cs where cs: "calls w1 = calls w @ cs" "filter is_drawArrays cs = []"
    by (simp add: new_calls_def)
  show ?thesis
    by (cases r) (simp_all add: script_main_unfold Pair Let_def new_calls_def cs)
qed

lemma script_colour_unfold:
  "script_colour p w =
     (case initShaderProgram p vertexShader fragmentShader w of
        (Inl e, w1) \<Rightarrow> (Inl e, w1)
      | (Inr sp, w1) \<Rightarrow>
          (let vp = attrib_location p (calls w1) sp ''aVertexPosition'';
               c1 = calls w1 @ [GetAttribLocation sp ''aVertexPosition'' vp];
               pm = uniform_location p c1 sp ''uProjectionMatrix'';
               c2 = c1 @ [GetUniformLocation sp ''uProjectionMatrix'' pm];
               mv = uniform_location p c2 sp ''uModelViewMatrix'';
               c3 = c2 @ [GetUniformLocation sp ''uModelViewMatrix'' mv];
               cm = uniform_location p c3 sp ''colorMatrix'';
               c4 = c3 @ [GetUniformLocation sp ''colorMatrix'' cm];
               h = next_handle w1
           in drawScene p (length (heap w1)) (Suc (length (heap w1)))
                (w1\<lparr>calls := c4 @ [CreateBuffer h, BindBuffer ARRAY_BUFFER (Some h),
                            BufferData ARRAY_BUFFER
                              [fround p (- 1), fround p 1, fround p 1, fround p 1,
                               fround p (- 1), fround p (- 1), fround p 1, fround p (- 1)]
                              STATIC_DRAW],
                     next_handle := Suc h,
                     heap := heap w1 @
                       [ProgramInfoObj \<lparr>program = sp, attribLocations = \<lparr>vertexPosition = vp\<rparr>,
                          uniformLocations = [(''projectionMatrix'', pm), (''modelViewMatrix'', mv),
                                              (''colorMatrix'', cm)]\<rparr>,
                        BuffersObj [(''position'', h)]]\<rparr>)))"
  by (simp add: script_colour_def gl_getAttribLocation_def gl_getUniformLocation_def emit_def
      alloc_def initBuffers_unfold Let_def split: prod.splits sum.splits)

lemma script_colour_failure:
  "initShaderProgram p vertexShader fragmentShader w = (Inl e, w1) \<Longrightarrow>
   script_colour p w = (Inl e, w1)"
  by (simp add: script_colour_unfold)

lemma script_colour_success:
  assumes init: "initShaderProgram p vertexShader fragmentShader w = (Inr sp, w1)"
  shows "fst (script_colour p w) = Inr ()"
    and "filter is_drawArrays (new_calls w (snd (script_colour p w))) = [DrawArrays TRIANGLE_STRIP 0 4]"
proof -
  from initShaderProgram_effects(1,2)
         [where p = p and vs = vertexShader and fs = fragmentShader and w = w] init
  obtain cs where cs: "calls w1 = calls w @ cs" "filter is_drawArrays cs = []"
    by (simp add: new_calls_def)
  obtain w7 where run: "script_colour p w = drawScene p (length (heap w1)) (Suc (length (heap w1))) w7"
    and w7: "\<exists>info. programInfo_at w7 (length (heap w1)) = Some info"
            "\<exists>cs'. calls w7 = calls w1 @ cs' \<and> filter is_drawArrays cs' = []"
    by (simp add: script_colour_unfold init Let_def programInfo_at_def heap_get_def nth_append)
  from w7 obtain info cs' where info: "programInfo_at w7 (length (heap w1)) = Some info"
    and cs': "calls w7 = calls w1 @ cs'" "filter is_drawArrays cs' = []"
    by blast
  let ?wf = "snd (drawScene p (length (heap w1)) (Suc (length (heap w1))) w7)"
  show "fst (script_colour p w) = Inr ()"
    by (simp add: run drawScene_returns info)
  have "calls ?wf = calls w @ cs @ cs' @ new_calls w7 ?wf"
    using drawScene_calls [where p = p and a = "length (heap w1)" and b = "Suc (length (heap w1))"
        and w = w7]
    by (simp add: cs cs')
  then have "new_calls w ?wf = cs @ cs' @ new_calls w7 ?wf"
    by (rule new_calls_append)
  then show "filter is_drawArrays (new_calls w (snd (script_colour p w)))
               = [DrawArrays TRIANGLE_STRIP 0 4]"
    by (simp add: run cs cs' drawScene_draws info)
qed

subsection \<open>The concrete platform and worlds\<close>

lemma ready_world_programInfo:
  "programInfo_at ready_world 0 =
     Some \<lparr>program = 2, attribLocations = \<lparr>vertexPosition = 0\<rparr>,
           uniformLocations = [(''projectionMatrix'', Some 17), (''modelViewMatrix'', Some 16),
                               (''colorMatrix'', Some 11)]\<rparr>"
  "buffers_position ready_world 1 = Some 3"
  by (simp_all add: ready_world_def programInfo_at_def buffers_position_def heap_get_def)

lemma mock_init:
  "fst (initShaderProgram (mock_platform [] True) vs fs world0) = Inr 2"
  by (simp add: initShaderProgram_unfold mock_platform_def world0_def Let_def)

lemma mock_loadShaders:
  "loadShaders (mock_platform failing linkable) t src world0 =
     (if 0 \<in> set failing
      then (Inl (Error ''An error occured compiling the shaders: ERROR: 0:1: syntax error''),
            \<lparr>calls = [CreateShader t 0, ShaderSource 0 src, CompileShader 0,
                      GetShaderParameter 0 COMPILE_STATUS False,
                      GetShaderInfoLog 0 ''ERROR: 0:1: syntax error'', DeleteShader 0],
             next_handle = 1, heap = [], random_count = 0,
             console = [''An error occured compiling the shaders: ERROR: 0:1: syntax error'']\<rparr>)
      else (Inr 0,
            \<lparr>calls = [CreateShader t 0, ShaderSource 0 src, CompileShader 0,
                      GetShaderParameter 0 COMPILE_STATUS True],
             next_handle = 1, heap = [], random_count = 0, console = []\<rparr>))"
  by (simp add: loadShaders_unfold mock_platform_def world0_def Let_def)

subsection \<open>Rounding keeps a channel in the unit interval\<close>

lemma channel_zero_or_one:
  assumes m: "mono f" and f0: "f 0 = 0" and f1: "f 1 = 1" and f255: "f 255 = 255"
      and r: "0 \<le> r" "r < 1"
  shows "Math_round (f (f (r * 255) / 255)) = 0 \<or> Math_round (f (f (r * 255) / 255)) = 1"
proof -
  have "f 0 \<le> f (r * 255)" "f (r * 255) \<le> f 255"
    using r by (auto intro!: monoD [OF m])
  then have x: "0 \<le> f (r * 255) / 255" "f (r * 255) / 255 \<le> 1"
    by (simp_all add: f0 f255)
  then have "f 0 \<le> f (f (r * 255) / 255)" "f (f (r * 255) / 255) \<le> f 1"
    by (auto intro!: monoD [OF m])
  then have y: "0 \<le> f (f (r * 255) / 255)" "f (f (r * 255) / 255) \<le> 1"
    by (simp_all add: f0 f1)
  have "\<lfloor>f (f (r * 255) / 255) + 1 / 2\<rfloor> = 0 \<or> \<lfloor>f (f (r * 255) / 255) + 1 / 2\<rfloor> = 1"
    using y by (simp add: floor_eq_iff) linarith
  then show ?thesis
    by (auto simp add: Math_round_def)
qed

lemma grid_rounding: "mono grid" "grid 0 = 0" "grid 1 = 1" "grid 255 = 255"
  by (auto simp: mono_def grid_def intro!: divide_right_mono floor_mono)


section \<open>The claims\<close>

text \<open>
  C1. Let the rounding of binary64 arithmetic be monotone and leave 0, 1 and 255 unchanged,
  and let every value of the random source lie in \<open>[0, 1)\<close>. Then each of the channels R, G
  and B that \<open>randomColour\<close> returns, computed as \<^verbatim>\<open>round((random() * 255) / 255)\<close>, is exactly
  0 or exactly 1; every colour upload among the calls of any \<open>drawScene\<close> invocation has
  three channels that are each 0 or 1; and an invocation that executes to its end uploads
  exactly one colour, the one \<open>randomColour\<close> returns.
\<close>

theorem randomColour_channels_zero_or_one:
  assumes rounding: "mono (fl p)" "fl p 0 = 0" "fl p 1 = 1" "fl p 255 = 255"
      and unit_interval: "\<forall>n. 0 \<le> random_source p n \<and> random_source p n < 1"
  shows "(R (fst (randomColour p w)) = 0 \<or> R (fst (randomColour p w)) = 1) \<and>
         (G (fst (randomColour p w)) = 0 \<or> G (fst (randomColour p w)) = 1) \<and>
         (B (fst (randomColour p w)) = 0 \<or> B (fst (randomColour p w)) = 1) \<and>
         list_all channels_01 (new_calls w (snd (drawScene p a b w))) \<and>
         (programInfo_at w a = Some info \<longrightarrow>
            filter is_uniform3f (new_calls w (snd (drawScene p a b w))) =
              [Uniform3f (uniform_of (uniformLocations info) ''colorMatrix'')
                 (R (fst (randomColour p w))) (G (fst (randomColour p w)))
                 (B (fst (randomColour p w)))])"
proof -
  have ch: "Math_round (fl p (fl p (random_source p n * 255) / 255)) = 0 \<or>
            Math_round (fl p (fl p (random_source p n * 255) / 255)) = 1" for n
    using rounding unit_interval by (intro channel_zero_or_one) auto
  have rgb: "(R (fst (randomColour p w)) = 0 \<or> R (fst (randomColour p w)) = 1) \<and>
         (G (fst (randomColour p w)) = 0 \<or> G (fst (randomColour p w)) = 1) \<and>
         (B (fst (randomColour p w)) = 0 \<or> B (fst (randomColour p w)) = 1)"
    using ch by (simp add: randomColour_unfold)
  then have "list_all channels_01 (new_calls w (snd (drawScene p a b w)))"
    by (simp add: drawScene_new_calls split: option.split)
  with rgb show ?thesis
    by (simp add: drawScene_new_calls)
qed

theorem randomColour_channels_zero_or_one_witness:
  "mono (fl (mock_platform [] True)) \<and> fl (mock_platform [] True) 0 = 0 \<and>
   fl (mock_platform [] True) 1 = 1 \<and> fl (mock_platform [] True) 255 = 255 \<and>
   (\<forall>n. 0 \<le> random_source (mock_platform [] True) n \<and> random_source (mock_platform [] True) n < 1) \<and>
   fst (randomColour (mock_platform [] True) ready_world) = \<lparr>R = 1, G = 0, B = 0\<rparr> \<and>
   filter is_uniform3f
     (new_calls ready_world (snd (drawScene (mock_platform [] True) 0 1 ready_world)))
     = [Uniform3f (Some 11) 1 0 0]"
proof -
  let ?info = "\<lparr>program = 2, attribLocations = \<lparr>vertexPosition = 0\<rparr>,
           uniformLocations = [(''projectionMatrix'', Some 17), (''modelViewMatrix'', Some 16),
                               (''colorMatrix'', Some 11)]\<rparr>"
  have r: "mono (fl (mock_platform [] True))" "fl (mock_platform [] True) 0 = 0"
    "fl (mock_platform [] True) 1 = 1" "fl (mock_platform [] True) 255 = 255"
    by (simp_all add: mock_platform_def grid_rounding)
  have u: "\<forall>n. 0 \<le> random_source (mock_platform [] True) n \<and> random_source (mock_platform [] True) n < 1"
    by (simp add: mock_platform_def)
  have c: "fst (randomColour (mock_platform [] True) ready_world) = \<lparr>R = 1, G = 0, B = 0\<rparr>"
    by (simp add: randomColour_unfold mock_platform_def ready_world_def grid_def Math_round_def)
  from randomColour_channels_zero_or_one [OF r u, where w = ready_world and a = 0 and b = 1
         and info = ?info] ready_world_programInfo(1)
  have "filter is_uniform3f
     (new_calls ready_world (snd (drawScene (mock_platform [] True) 0 1 ready_world)))
     = [Uniform3f (uniform_of (uniformLocations ?info) ''colorMatrix'')
                 (R (fst (randomColour (mock_platform [] True) ready_world)))
                 (G (fst (randomColour (mock_platform [] True) ready_world)))
                 (B (fst (randomColour (mock_platform [] True) ready_world)))]"
    by blast
  then have "filter is_uniform3f
     (new_calls ready_world (snd (drawScene (mock_platform [] True) 0 1 ready_world)))
     = [Uniform3f (Some 11) 1 0 0]"
    by (simp add: c uniform_of_def)
  with r u c show ?thesis
    by blast
qed

text \<open>
  C2. The claim is that each of the two scripts, in a run in which both shaders compile and
  the program links, issues exactly one draw call. \<^verbatim>\<open>src/main.js\<close> does not do so. Its
  comment on the fragment shader says "we're just drawing a white square", it defines \<^verbatim>\<open>initBuffers\<close>,
  and the colour-uniform script goes on from \<^verbatim>\<open>programInfo\<close> to \<^verbatim>\<open>initBuffers\<close> and \<^verbatim>\<open>drawScene\<close>;
  but the top level of \<^verbatim>\<open>src/main.js\<close> stops at \<^verbatim>\<open>programInfo\<close>. On the concrete platform on
  which both shaders compile and the program links, the run of \<^verbatim>\<open>src/main.js\<close> from the empty
  world ends without an error, its log shows both compile statuses and the link status true,
  and it holds no draw call where the claim asks for one.
\<close>

theorem main_js_never_draws:
  "fst (script_main (mock_platform [] True) world0) = Inr 0 \<and>
   GetShaderParameter 0 COMPILE_STATUS True
     \<in> set (calls (snd (script_main (mock_platform [] True) world0))) \<and>
   GetShaderParameter 1 COMPILE_STATUS True
     \<in> set (calls (snd (script_main (mock_platform [] True) world0))) \<and>
   GetProgramParameter 2 LINK_STATUS True
     \<in> set (calls (snd (script_main (mock_platform [] True) world0))) \<and>
   length (filter is_drawArrays (calls (snd (script_main (mock_platform [] True) world0)))) = 0"
  by (simp add: script_main_unfold initShaderProgram_unfold mock_platform_def world0_def Let_def)

text \<open>
  C3. For every stage kind and source string: when the graphics API reports compile status
  false for the shader object just created, \<open>loadShaders\<close> throws an \<open>Error\<close> whose message
  is the fixed prefix followed by the shader's info log, and the last call it issues deletes
  that shader object; when the status is true, it returns the shader's handle, throws
  nothing and deletes nothing.
\<close>

theorem loadShaders_compile_status:
  "let h = next_handle w;
       issued = calls w @ [CreateShader t h, ShaderSource h src, CompileShader h];
       status = shader_parameter p issued h COMPILE_STATUS;
       info = shader_info_log p (issued @ [GetShaderParameter h COMPILE_STATUS False]) h;
       (r, w') = loadShaders p t src w
   in (\<not> status \<longrightarrow>
         r = Inl (Error (''An error occured compiling the shaders: '' @ info)) \<and>
         new_calls w w' = [CreateShader t h, ShaderSource h src, CompileShader h,
                           GetShaderParameter h COMPILE_STATUS False,
                           GetShaderInfoLog h info, DeleteShader h]) \<and>
      (status \<longrightarrow>
         r = Inr h \<and>
         new_calls w w' = [CreateShader t h, ShaderSource h src, CompileShader h,
                           GetShaderParameter h COMPILE_STATUS True])"
  by (simp add: loadShaders_unfold Let_def new_calls_def)

theorem loadShaders_compile_status_witness:
  "\<not> shader_parameter (mock_platform [0] True)
       [CreateShader FRAGMENT_SHADER 0, ShaderSource 0 ''void main() {'', CompileShader 0]
       0 COMPILE_STATUS \<and>
   loadShaders (mock_platform [0] True) FRAGMENT_SHADER ''void main() {'' world0 =
     (Inl (Error ''An error occured compiling the shaders: ERROR: 0:1: syntax error''),
      \<lparr>calls = [CreateShader FRAGMENT_SHADER 0, ShaderSource 0 ''void main() {'', CompileShader 0,
                GetShaderParameter 0 COMPILE_STATUS False,
                GetShaderInfoLog 0 ''ERROR: 0:1: syntax error'', DeleteShader 0],
       next_handle = 1, heap = [], random_count = 0,
       console = [''An error occured compiling the shaders: ERROR: 0:1: syntax error'']\<rparr>) \<and>
   shader_parameter (mock_platform [] True)
       [CreateShader FRAGMENT_SHADER 0, ShaderSource 0 ''void main() {}'', CompileShader 0]
       0 COMPILE_STATUS \<and>
   loadShaders (mock_platform [] True) FRAGMENT_SHADER ''void main() {}'' world0 =
     (Inr 0,
      \<lparr>calls = [CreateShader FRAGMENT_SHADER 0, ShaderSource 0 ''void main() {}'', CompileShader 0,
                GetShaderParameter 0 COMPILE_STATUS True],
       next_handle = 1, heap = [], random_count = 0, console = []\<rparr>)"
  using loadShaders_compile_status [of world0 FRAGMENT_SHADER "''void main() {''" "mock_platform [0] True"]
        loadShaders_compile_status [of world0 FRAGMENT_SHADER "''void main() {}''" "mock_platform [] True"]
  by (simp add: loadShaders_unfold Let_def new_calls_def mock_platform_def world0_def)

text \<open>
  C4. Let both shaders compile: \<open>loadShaders\<close> returns the vertex shader \<open>hv\<close> and then the
  fragment shader \<open>hf\<close>. When the graphics API then reports link status true for the program
  created from them, \<open>initShaderProgram\<close> returns the program's handle. When it reports
  false, \<open>initShaderProgram\<close> throws an \<open>Error\<close> whose message is the fixed prefix followed
  by the program's info log, it has issued no draw call, and either script (which calls it
  with its own shader sources) ends at that throw with the same error and in the same world:
  the run issues no draw call.
\<close>

theorem initShaderProgram_link_status:
  assumes vert: "loadShaders p VERTEX_SHADER vs w = (Inr hv, w1)"
      and frag: "loadShaders p FRAGMENT_SHADER fs w1 = (Inr hf, w2)"
  shows "let hp = next_handle w2;
             issued = calls w2 @ [CreateProgram hp, AttachShader hp hv, AttachShader hp hf,
                                  LinkProgram hp];
             status = program_parameter p issued hp LINK_STATUS;
             info = program_info_log p (issued @ [GetProgramParameter hp LINK_STATUS False]) hp;
             msg = ''Unable to initialize the shader program: '' @ info;
             (r, w') = initShaderProgram p vs fs w
         in (status \<longrightarrow> r = Inr hp) \<and>
            (\<not> status \<longrightarrow>
               r = Inl (Error msg) \<and>
               filter is_drawArrays (new_calls w w') = [] \<and>
               (vs = vertexShader \<and> fs = fragmentShader \<longrightarrow>
                  script_colour p w = (Inl (Error msg), w')) \<and>
               (vs = vertexShader \<and> fs = fragmentShader_main \<longrightarrow>
                  script_main p w = (Inl (Error msg), w')))"
proof -
  let ?hp = "next_handle w2"
  let ?issued = "calls w2 @ [CreateProgram ?hp, AttachShader ?hp hv, AttachShader ?hp hf, LinkProgram ?hp]"
  let ?info = "program_info_log p (?issued @ [GetProgramParameter ?hp LINK_STATUS False]) ?hp"
  let ?msg = "''Unable to initialize the shader program: '' @ ?info"
  have run: "initShaderProgram p vs fs w =
     (if program_parameter p ?issued ?hp LINK_STATUS
      then (Inr ?hp, w2\<lparr>calls := ?issued @ [GetProgramParameter ?hp LINK_STATUS True],
                        next_handle := Suc ?hp\<rparr>)
      else (Inl (Error ?msg),
            w2\<lparr>calls := ?issued @ [GetProgramParameter ?hp LINK_STATUS False,
                                   GetProgramInfoLog ?hp ?info],
               next_handle := Suc ?hp, console := console w2 @ [?msg]\<rparr>))"
    by (simp add: initShaderProgram_def vert frag gl_defs console_error_def Let_def)
  show ?thesis
  proof (cases "program_parameter p ?issued ?hp LINK_STATUS")
    case True
    then show ?thesis by (simp add: run Let_def)
  next
    case False
    then obtain w' where r: "initShaderProgram p vs fs w = (Inl (Error ?msg), w')"
      by (simp add: run)
    have nodraw: "filter is_drawArrays (new_calls w w') = []"
      using initShaderProgram_effects(2) [where p = p and vs = vs and fs = fs and w = w]
      by (simp add: r)
    have col: "vs = vertexShader \<and> fs = fragmentShader \<longrightarrow> script_colour p w = (Inl (Error ?msg), w')"
      using r by (blast intro: script_colour_failure)
    have mn: "vs = vertexShader \<and> fs = fragmentShader_main \<longrightarrow> script_main p w = (Inl (Error ?msg), w')"
      using r by (blast intro: script_main_failure)
    from False nodraw col mn show ?thesis
      unfolding Let_def r prod.case by blast
  qed
qed

theorem initShaderProgram_link_status_witness:
  "loadShaders (mock_platform [] False) VERTEX_SHADER vertexShader world0 =
     (Inr 0, \<lparr>calls = [CreateShader VERTEX_SHADER 0, ShaderSource 0 vertexShader, CompileShader 0,
                        GetShaderParameter 0 COMPILE_STATUS True],
              next_handle = 1, heap = [], random_count = 0, console = []\<rparr>) \<and>
   fst (loadShaders (mock_platform [] False) FRAGMENT_SHADER fragmentShader
          \<lparr>calls = [CreateShader VERTEX_SHADER 0, ShaderSource 0 vertexShader, CompileShader 0,
                    GetShaderParameter 0 COMPILE_STATUS True],
           next_handle = 1, heap = [], random_count = 0, console = []\<rparr>) = Inr 1 \<and>
   fst (initShaderProgram (mock_platform [] False) vertexShader fragmentShader world0)
     = Inl (Error ''Unable to initialize the shader program: link failed'') \<and>
   script_colour (mock_platform [] False) world0
     = (Inl (Error ''Unable to initialize the shader program: link failed''),
        snd (initShaderProgram (mock_platform [] False) vertexShader fragmentShader world0)) \<and>
   filter is_drawArrays (calls (snd (script_colour (mock_platform [] False) world0))) = [] \<and>
   fst (initShaderProgram (mock_platform [] True) vertexShader fragmentShader world0) = Inr 2"
proof -
  let ?w1 = "\<lparr>calls = [CreateShader VERTEX_SHADER 0, ShaderSource 0 vertexShader, CompileShader 0,
                        GetShaderParameter 0 COMPILE_STATUS True],
              next_handle = 1, heap = [], random_count = 0, console = []\<rparr>"
  have v: "loadShaders (mock_platform [] b) VERTEX_SHADER vertexShader world0 = (Inr 0, ?w1)" for b
    by (simp add: mock_loadShaders)
  have f: "loadShaders (mock_platform [] b) FRAGMENT_SHADER fragmentShader ?w1
             = (Inr 1, snd (loadShaders (mock_platform [] b) FRAGMENT_SHADER fragmentShader ?w1))" for b
    by (simp add: loadShaders_unfold mock_platform_def Let_def)
  from initShaderProgram_link_status [OF v f, of False] initShaderProgram_link_status [OF v f, of True]
  show ?thesis
    by (simp add: v mock_init initShaderProgram_unfold script_colour_unfold loadShaders_unfold
        mock_platform_def world0_def Let_def new_calls_def)
qed

text \<open>
  C5. Every invocation of \<open>initBuffers\<close> issues exactly three calls: it creates one buffer,
  binds that buffer to \<open>ARRAY_BUFFER\<close>, and uploads the eight numbers
  \<open>[-1, 1, 1, 1, -1, -1, 1, -1]\<close> (as rounded to binary32, which leaves 1 and -1 as they
  are) with the hint \<open>STATIC_DRAW\<close>. It returns a fresh object whose only entry is
  \<^verbatim>\<open>position\<close>, holding the handle of that buffer.
\<close>

theorem initBuffers_position_buffer:
  assumes "fround p 1 = 1" and "fround p (- 1) = - 1"
  shows "let h = next_handle w; (buffers, w') = initBuffers p w
         in new_calls w w' = [CreateBuffer h, BindBuffer ARRAY_BUFFER (Some h),
                              BufferData ARRAY_BUFFER [- 1, 1, 1, 1, - 1, - 1, 1, - 1] STATIC_DRAW] \<and>
            heap_get w' buffers = Some (BuffersObj [(''position'', h)]) \<and>
            heap_get w buffers = None \<and>
            buffers_position w' buffers = Some h"
  using assms
  by (simp add: initBuffers_unfold new_calls_def heap_get_def buffers_position_def)

theorem initBuffers_position_buffer_witness:
  "fround (mock_platform [] True) 1 = 1 \<and> fround (mock_platform [] True) (- 1) = - 1 \<and>
   initBuffers (mock_platform [] True) world0 =
     (0, \<lparr>calls = [CreateBuffer 0, BindBuffer ARRAY_BUFFER (Some 0),
                    BufferData ARRAY_BUFFER [- 1, 1, 1, 1, - 1, - 1, 1, - 1] STATIC_DRAW],
          next_handle = 1, heap = [BuffersObj [(''position'', 0)]], random_count = 0,
          console = []\<rparr>)"
proof -
  have f: "fround (mock_platform [] True) 1 = 1" "fround (mock_platform [] True) (- 1) = - 1"
    by (simp_all add: mock_platform_def grid_def)
  from initBuffers_position_buffer [OF f, where w = world0] f show ?thesis
    by (simp add: initBuffers_unfold world0_def)
qed

text \<open>
  C6. Whenever \<open>drawScene\<close> executes (its \<^verbatim>\<open>programInfo\<close> argument is a program-info object),
  exactly one of the calls it issues is a \<^verbatim>\<open>drawArrays\<close>, with mode \<open>TRIANGLE_STRIP\<close>, first
  vertex 0 and count 4. In a run of the colour-uniform script from any world in which
  \<open>initShaderProgram\<close> succeeds, \<open>drawScene\<close> executes, the run ends without an error, and the
  calls of the whole run hold exactly that one \<^verbatim>\<open>drawArrays\<close> call.
\<close>

theorem single_drawArrays_call:
  "(programInfo_at w a = Some info \<longrightarrow>
      fst (drawScene p a b w) = Inr () \<and>
      filter is_drawArrays (new_calls w (snd (drawScene p a b w))) = [DrawArrays TRIANGLE_STRIP 0 4]) \<and>
   (fst (initShaderProgram p vertexShader fragmentShader u) = Inr sp \<longrightarrow>
      fst (script_colour p u) = Inr () \<and>
      filter is_drawArrays (new_calls u (snd (script_colour p u))) = [DrawArrays TRIANGLE_STRIP 0 4])"
proof (intro conjI impI)
  assume "programInfo_at w a = Some info"
  then show "fst (drawScene p a b w) = Inr ()"
    and "filter is_drawArrays (new_calls w (snd (drawScene p a b w))) = [DrawArrays TRIANGLE_STRIP 0 4]"
    by (simp_all add: drawScene_returns drawScene_draws)
next
  assume "fst (initShaderProgram p vertexShader fragmentShader u) = Inr sp"
  then obtain w1 where "initShaderProgram p vertexShader fragmentShader u = (Inr sp, w1)"
    by (cases "initShaderProgram p vertexShader fragmentShader u") simp
  then show "fst (script_colour p u) = Inr ()"
    and "filter is_drawArrays (new_calls u (snd (script_colour p u))) = [DrawArrays TRIANGLE_STRIP 0 4]"
    by (rule script_colour_success)+
qed

theorem single_drawArrays_call_witness:
  "programInfo_at ready_world 0 =
     Some \<lparr>program = 2, attribLocations = \<lparr>vertexPosition = 0\<rparr>,
           uniformLocations = [(''projectionMatrix'', Some 17), (''modelViewMatrix'', Some 16),
                               (''colorMatrix'', Some 11)]\<rparr> \<and>
   fst (drawScene (mock_platform [] True) 0 1 ready_world) = Inr () \<and>
   filter is_drawArrays (new_calls ready_world (snd (drawScene (mock_platform [] True) 0 1 ready_world)))
     = [DrawArrays TRIANGLE_STRIP 0 4] \<and>
   fst (initShaderProgram (mock_platform [] True) vertexShader fragmentShader world0) = Inr 2 \<and>
   fst (script_colour (mock_platform [] True) world0) = Inr () \<and>
   filter is_drawArrays (new_calls world0 (snd (script_colour (mock_platform [] True) world0)))
     = [DrawArrays TRIANGLE_STRIP 0 4]"
  using single_drawArrays_call [where p = "mock_platform [] True" and w = ready_world and a = 0
          and b = 1 and u = world0 and sp = 2]
  by (simp add: ready_world_programInfo mock_init)

text \<open>
  C7 (the matrix library is not in the sources: its model follows the spec). In every
  invocation of \<open>drawScene\<close> that reaches the uploads, exactly two matrices are uploaded: the projection
  matrix to the projection uniform, then, to the model-view uniform and untransposed, the
  matrix that is the identity in every element but element 14 (the z translation), which
  is -6. An invocation that throws before uploads no matrix. That matrix is what the second
  array \<open>drawScene\<close> creates holds at the end, and it is what \<open>mat4_translate\<close> by
  \<open>(-0, 0, -6)\<close> makes of the identity that \<open>mat4_create\<close> returns.
\<close>

theorem drawScene_modelView_matrix:
  "(programInfo_at w a = Some info \<longrightarrow>
      filter is_uniformMatrix4fv (new_calls w (snd (drawScene p a b w))) =
        [UniformMatrix4fv (uniform_of (uniformLocations info) ''projectionMatrix'') False
           (array_at (snd (drawScene p a b w)) (length (heap w))),
         UniformMatrix4fv (uniform_of (uniformLocations info) ''modelViewMatrix'') False
           [1, 0, 0, 0,  0, 1, 0, 0,  0, 0, 1, 0,  0, 0, - 6, 1]]) \<and>
   (programInfo_at w a = None \<longrightarrow>
      filter is_uniformMatrix4fv (new_calls w (snd (drawScene p a b w))) = []) \<and>
   array_at (snd (drawScene p a b w)) (Suc (length (heap w)))
     = [1, 0, 0, 0,  0, 1, 0, 0,  0, 0, 1, 0,  0, 0, - 6, 1] \<and>
   array_at (mat4_translate (fst (mat4_create u)) (fst (mat4_create u)) (- 0, 0, - 6)
               (snd (mat4_create u))) (fst (mat4_create u))
     = [1, 0, 0, 0,  0, 1, 0, 0,  0, 0, 1, 0,  0, 0, - 6, 1] \<and>
   array_at (snd (mat4_create u)) (fst (mat4_create u))
     = [1, 0, 0, 0,  0, 1, 0, 0,  0, 0, 1, 0,  0, 0, 0, 1]"
proof (intro conjI impI)
  obtain proj where hp: "heap (snd (drawScene p a b w)) =
     heap w @ [Float32ArrayObj proj,
               Float32ArrayObj [1, 0, 0, 0,  0, 1, 0, 0,  0, 0, 1, 0,  0, 0, - 6, 1]]"
    using drawScene_heap by blast
  show "array_at (snd (drawScene p a b w)) (Suc (length (heap w)))
          = [1, 0, 0, 0,  0, 1, 0, 0,  0, 0, 1, 0,  0, 0, - 6, 1]"
    by (simp add: array_at_def heap_get_def hp nth_append)
  show "array_at (mat4_translate (fst (mat4_create u)) (fst (mat4_create u)) (- 0, 0, - 6)
               (snd (mat4_create u))) (fst (mat4_create u))
     = [1, 0, 0, 0,  0, 1, 0, 0,  0, 0, 1, 0,  0, 0, - 6, 1]"
    by (simp add: mat4_translate_def mat4_create_def alloc_def heap_set_def array_at_def
        heap_get_def Let_def)
  show "array_at (snd (mat4_create u)) (fst (mat4_create u))
     = [1, 0, 0, 0,  0, 1, 0, 0,  0, 0, 1, 0,  0, 0, 0, 1]"
    by (simp add: mat4_create_def alloc_def array_at_def heap_get_def)
qed (simp_all add: drawScene_new_calls)

theorem drawScene_modelView_matrix_witness:
  "programInfo_at ready_world 0 =
     Some \<lparr>program = 2, attribLocations = \<lparr>vertexPosition = 0\<rparr>,
           uniformLocations = [(''projectionMatrix'', Some 17), (''modelViewMatrix'', Some 16),
                               (''colorMatrix'', Some 11)]\<rparr> \<and>
   drop 1 (filter is_uniformMatrix4fv
      (new_calls ready_world (snd (drawScene (mock_platform [] True) 0 1 ready_world)))) =
     [UniformMatrix4fv (Some 16) False [1, 0, 0, 0,  0, 1, 0, 0,  0, 0, 1, 0,  0, 0, - 6, 1]] \<and>
   programInfo_at ready_world 1 = None \<and>
   filter is_uniformMatrix4fv
      (new_calls ready_world (snd (drawScene (mock_platform [] True) 1 1 ready_world))) = []"
proof -
  let ?info = "\<lparr>program = 2, attribLocations = \<lparr>vertexPosition = 0\<rparr>,
           uniformLocations = [(''projectionMatrix'', Some 17), (''modelViewMatrix'', Some 16),
                               (''colorMatrix'', Some 11)]\<rparr>"
  have some: "programInfo_at ready_world 0 = Some ?info"
    by (rule ready_world_programInfo)
  have none: "programInfo_at ready_world 1 = None"
    by (simp add: ready_world_def programInfo_at_def heap_get_def)
  from drawScene_modelView_matrix [where p = "mock_platform [] True" and w = ready_world
          and a = 0 and b = 1 and info = ?info and u = world0] some
  have "filter is_uniformMatrix4fv
      (new_calls ready_world (snd (drawScene (mock_platform [] True) 0 1 ready_world))) =
        [UniformMatrix4fv (uniform_of (uniformLocations ?info) ''projectionMatrix'') False
           (array_at (snd (drawScene (mock_platform [] True) 0 1 ready_world)) (length (heap ready_world))),
         UniformMatrix4fv (uniform_of (uniformLocations ?info) ''modelViewMatrix'') False
           [1, 0, 0, 0,  0, 1, 0, 0,  0, 0, 1, 0,  0, 0, - 6, 1]]"
    by blast
  then have one: "drop 1 (filter is_uniformMatrix4fv
      (new_calls ready_world (snd (drawScene (mock_platform [] True) 0 1 ready_world)))) =
     [UniformMatrix4fv (Some 16) False [1, 0, 0, 0,  0, 1, 0, 0,  0, 0, 1, 0,  0, 0, - 6, 1]]"
    by (simp add: uniform_of_def)
  from drawScene_modelView_matrix [where p = "mock_platform [] True" and w = ready_world
          and a = 1 and b = 1 and info = ?info and u = world0] none
  have two: "filter is_uniformMatrix4fv
      (new_calls ready_world (snd (drawScene (mock_platform [] True) 1 1 ready_world))) = []"
    by blast
  from some one none two show ?thesis
    by blast
qed

text \<open>
  C8. In every invocation of \<open>drawScene\<close> the first five calls issued are, in this order:
  clear colour opaque black, clear depth 1, enable the depth test, depth function \<open>LEQUAL\<close>,
  and a clear of the colour and depth buffers (mask \<open>0x4000 OR 0x100\<close>). None of the five is
  a draw call; when \<open>drawScene\<close> executes to its end it issues thirteen calls, the draw call
  is the last of them, and none of the twelve before it is a draw call.
\<close>

theorem drawScene_clears_before_draw:
  "take 5 (new_calls w (snd (drawScene p a b w))) =
     [ClearColor 0 0 0 1, ClearDepth 1, Enable DEPTH_TEST, DepthFunc LEQUAL,
      Clear (COLOR_BUFFER_BIT OR DEPTH_BUFFER_BIT)] \<and>
   COLOR_BUFFER_BIT OR DEPTH_BUFFER_BIT = 0x4100 \<and>
   filter is_drawArrays (take 5 (new_calls w (snd (drawScene p a b w)))) = [] \<and>
   (programInfo_at w a = Some info \<longrightarrow>
      length (new_calls w (snd (drawScene p a b w))) = 13 \<and>
      new_calls w (snd (drawScene p a b w)) ! 12 = DrawArrays TRIANGLE_STRIP 0 4 \<and>
      filter is_drawArrays (take 12 (new_calls w (snd (drawScene p a b w)))) = [])"
  by (simp add: drawScene_new_calls COLOR_BUFFER_BIT_def DEPTH_BUFFER_BIT_def)

theorem drawScene_clears_before_draw_witness:
  "programInfo_at ready_world 0 =
     Some \<lparr>program = 2, attribLocations = \<lparr>vertexPosition = 0\<rparr>,
           uniformLocations = [(''projectionMatrix'', Some 17), (''modelViewMatrix'', Some 16),
                               (''colorMatrix'', Some 11)]\<rparr> \<and>
   take 5 (new_calls ready_world (snd (drawScene (mock_platform [] True) 0 1 ready_world))) =
     [ClearColor 0 0 0 1, ClearDepth 1, Enable DEPTH_TEST, DepthFunc LEQUAL, Clear 0x4100] \<and>
   length (new_calls ready_world (snd (drawScene (mock_platform [] True) 0 1 ready_world))) = 13 \<and>
   new_calls ready_world (snd (drawScene (mock_platform [] True) 0 1 ready_world)) ! 12
     = DrawArrays TRIANGLE_STRIP 0 4"
  using drawScene_clears_before_draw [where p = "mock_platform [] True" and w = ready_world
          and a = 0 and b = 1]
  by (simp add: ready_world_programInfo)

text \<open>
  C9. In any run of \<open>initShaderProgram\<close>, a shader is deleted only if the graphics API
  reported compile status false for that very shader (and never true). When the vertex
  shader has compiled and \<open>initShaderProgram\<close> fails, the vertex shader is not deleted; if
  the failure is the fragment shader's compilation, the only \<^verbatim>\<open>deleteShader\<close> call is the one
  on the fragment shader; if both compiled and linking failed, there is no \<^verbatim>\<open>deleteShader\<close>
  call at all.
\<close>

theorem deleteShader_only_failed_shader:
  "(\<forall>h. DeleteShader h \<in> set (new_calls w (snd (initShaderProgram p vs fs w))) \<longrightarrow>
        GetShaderParameter h COMPILE_STATUS False \<in> set (new_calls w (snd (initShaderProgram p vs fs w))) \<and>
        GetShaderParameter h COMPILE_STATUS True \<notin> set (new_calls w (snd (initShaderProgram p vs fs w)))) \<and>
   (loadShaders p VERTEX_SHADER vs w = (Inr hv, w1) \<and> initShaderProgram p vs fs w = (Inl e, w') \<longrightarrow>
      DeleteShader hv \<notin> set (new_calls w w') \<and>
      (case loadShaders p FRAGMENT_SHADER fs w1 of
         (Inl e', w2) \<Rightarrow>
           e' = e \<and> next_handle w1 \<noteq> hv \<and>
           filter is_deleteShader (new_calls w w') = [DeleteShader (next_handle w1)]
       | (Inr hf, w2) \<Rightarrow>
           hf \<noteq> hv \<and> DeleteShader hf \<notin> set (new_calls w w') \<and>
           filter is_deleteShader (new_calls w w') = []))"
proof (intro conjI allI impI)
  fix h
  assume "DeleteShader h \<in> set (new_calls w (snd (initShaderProgram p vs fs w)))"
  then show "GetShaderParameter h COMPILE_STATUS False \<in> set (new_calls w (snd (initShaderProgram p vs fs w)))"
    and "GetShaderParameter h COMPILE_STATUS True \<notin> set (new_calls w (snd (initShaderProgram p vs fs w)))"
    by (auto simp add: initShaderProgram_unfold Let_def new_calls_def split: if_splits)
next
  assume a: "loadShaders p VERTEX_SHADER vs w = (Inr hv, w1) \<and> initShaderProgram p vs fs w = (Inl e, w')"
  then have vert: "loadShaders p VERTEX_SHADER vs w = (Inr hv, w1)"
    and fails: "initShaderProgram p vs fs w = (Inl e, w')" by simp_all
  show "DeleteShader hv \<notin> set (new_calls w w')"
    using vert fails
    by (auto simp add: initShaderProgram_def loadShaders_unfold gl_defs console_error_def Let_def new_calls_def split: if_splits)
  show "case loadShaders p FRAGMENT_SHADER fs w1 of
         (Inl e', w2) \<Rightarrow>
           e' = e \<and> next_handle w1 \<noteq> hv \<and>
           filter is_deleteShader (new_calls w w') = [DeleteShader (next_handle w1)]
       | (Inr hf, w2) \<Rightarrow>
           hf \<noteq> hv \<and> DeleteShader hf \<notin> set (new_calls w w') \<and>
           filter is_deleteShader (new_calls w w') = []"
    using vert fails
    by (auto simp add: initShaderProgram_def loadShaders_unfold gl_defs console_error_def Let_def new_calls_def split: if_splits)
qed

theorem deleteShader_only_failed_shader_witness:
  "loadShaders (mock_platform [1] True) VERTEX_SHADER vertexShader world0 =
     (Inr 0, \<lparr>calls = [CreateShader VERTEX_SHADER 0, ShaderSource 0 vertexShader, CompileShader 0,
                        GetShaderParameter 0 COMPILE_STATUS True],
              next_handle = 1, heap = [], random_count = 0, console = []\<rparr>) \<and>
   fst (initShaderProgram (mock_platform [1] True) vertexShader fragmentShader world0)
     = Inl (Error ''An error occured compiling the shaders: ERROR: 0:1: syntax error'') \<and>
   filter is_deleteShader
     (calls (snd (initShaderProgram (mock_platform [1] True) vertexShader fragmentShader world0)))
     = [DeleteShader 1] \<and>
   loadShaders (mock_platform [] False) VERTEX_SHADER vertexShader world0 =
     (Inr 0, \<lparr>calls = [CreateShader VERTEX_SHADER 0, ShaderSource 0 vertexShader, CompileShader 0,
                        GetShaderParameter 0 COMPILE_STATUS True],
              next_handle = 1, heap = [], random_count = 0, console = []\<rparr>) \<and>
   fst (initShaderProgram (mock_platform [] False) vertexShader fragmentShader world0)
     = Inl (Error ''Unable to initialize the shader program: link failed'') \<and>
   filter is_deleteShader
     (calls (snd (initShaderProgram (mock_platform [] False) vertexShader fragmentShader world0)))
     = []"
proof -
  let ?w1 = "\<lparr>calls = [CreateShader VERTEX_SHADER 0, ShaderSource 0 vertexShader, CompileShader 0,
                        GetShaderParameter 0 COMPILE_STATUS True],
              next_handle = 1, heap = [], random_count = 0, console = []\<rparr>"
  let ?p = "mock_platform [1] True"
  let ?q = "mock_platform [] False"
  let ?ep = "Error ''An error occured compiling the shaders: ERROR: 0:1: syntax error''"
  let ?eq = "Error ''Unable to initialize the shader program: link failed''"
  have vp: "loadShaders ?p VERTEX_SHADER vertexShader world0 = (Inr 0, ?w1)"
    and vq: "loadShaders ?q VERTEX_SHADER vertexShader world0 = (Inr 0, ?w1)"
    by (simp_all add: mock_loadShaders)
  obtain wp where ip: "initShaderProgram ?p vertexShader fragmentShader world0 = (Inl ?ep, wp)"
    by (simp add: initShaderProgram_unfold mock_platform_def world0_def Let_def)
  obtain wq where iq: "initShaderProgram ?q vertexShader fragmentShader world0 = (Inl ?eq, wq)"
    by (simp add: initShaderProgram_unfold mock_platform_def world0_def Let_def)
  obtain w2 where fp: "loadShaders ?p FRAGMENT_SHADER fragmentShader ?w1 = (Inl ?ep, w2)"
    by (simp add: loadShaders_unfold mock_platform_def Let_def)
  obtain w3 where fq: "loadShaders ?q FRAGMENT_SHADER fragmentShader ?w1 = (Inr 1, w3)"
    by (simp add: loadShaders_unfold mock_platform_def Let_def)
  have "case loadShaders ?p FRAGMENT_SHADER fragmentShader ?w1 of
         (Inl e', w2) \<Rightarrow>
           e' = ?ep \<and> next_handle ?w1 \<noteq> 0 \<and>
           filter is_deleteShader (new_calls world0 wp) = [DeleteShader (next_handle ?w1)]
       | (Inr hf, w2) \<Rightarrow>
           hf \<noteq> 0 \<and> DeleteShader hf \<notin> set (new_calls world0 wp) \<and>
           filter is_deleteShader (new_calls world0 wp) = []"
    by (rule deleteShader_only_failed_shader
          [where p = ?p and vs = vertexShader and fs = fragmentShader
             and w = world0 and hv = 0 and ?w1.0 = ?w1 and e = ?ep and w' = wp,
           THEN conjunct2, THEN mp, OF conjI [OF vp ip], THEN conjunct2])
  then have dp: "filter is_deleteShader (calls wp) = [DeleteShader 1]"
    unfolding fp by (simp add: new_calls_def world0_def)
  have "case loadShaders ?q FRAGMENT_SHADER fragmentShader ?w1 of
         (Inl e', w2) \<Rightarrow>
           e' = ?eq \<and> next_handle ?w1 \<noteq> 0 \<and>
           filter is_deleteShader (new_calls world0 wq) = [DeleteShader (next_handle ?w1)]
       | (Inr hf, w2) \<Rightarrow>
           hf \<noteq> 0 \<and> DeleteShader hf \<notin> set (new_calls world0 wq) \<and>
           filter is_deleteShader (new_calls world0 wq) = []"
    by (rule deleteShader_only_failed_shader
          [where p = ?q and vs = vertexShader and fs = fragmentShader
             and w = world0 and hv = 0 and ?w1.0 = ?w1 and e = ?eq and w' = wq,
           THEN conjunct2, THEN mp, OF conjI [OF vq iq], THEN conjunct2])
  then have dq: "filter is_deleteShader (calls wq) = []"
    unfolding fq by (simp add: new_calls_def world0_def)
  have ap: "fst (initShaderProgram ?p vertexShader fragmentShader world0) = Inl ?ep"
    and aq: "fst (initShaderProgram ?q vertexShader fragmentShader world0) = Inl ?eq"
    using ip iq by simp_all
  have dp': "filter is_deleteShader
       (calls (snd (initShaderProgram ?p vertexShader fragmentShader world0))) = [DeleteShader 1]"
    and dq': "filter is_deleteShader
       (calls (snd (initShaderProgram ?q vertexShader fragmentShader world0))) = []"
    using dp dq ip iq by simp_all
  show ?thesis
    by (intro conjI) (fact vp ap dp' vq aq dq')+
qed



end
